theory Spec2Isabelle
  imports Complex_Main
begin

section \<open>SmartTimers: a shallow embedding of SmartTimers.py\<close>

text \<open>
  The program is a single Python file built on a GUI toolkit. The model keeps the
  fields the program itself reads and writes (the attributes of \<open>TimerWidget\<close>,
  \<open>AlarmOverlay\<close>, \<open>SoundPlayer\<close> and \<open>MainWindow\<close>) and turns every method
  into a function from the old state to the new one. Conventions:
  \<^item> Python \<open>int\<close> is \<open>int\<close>; Python \<open>float\<close> (clock readings and the remaining time
    once a tick has subtracted from it) is \<open>real\<close>, so rounding of binary floating
    point is not part of the model;
  \<^item> \<open>str\<close> is \<open>string\<close>, each \<open>char\<close> standing for one code point below 256;
  \<^item> a clock reading \<open>time.time()\<close> is a parameter of the function that reads it;
  \<^item> the sound and tray calls the program makes are recorded in a log, in call order.
\<close>

subsection \<open>Number formatting\<close>

text \<open>The decimal digit for a value below ten.\<close>

definition digit_char :: "nat \<Rightarrow> char" where
  "digit_char d = ''0123456789'' ! (d mod 10)"

text \<open>Python's \<open>str(n)\<close> for a natural number: decimal, no leading zero.\<close>

function str_nat :: "nat \<Rightarrow> string" where
  "str_nat n = (if n < 10 then [digit_char n] else str_nat (n div 10) @ [digit_char (n mod 10)])"
  by pat_completeness auto
termination
  by (relation "measure id") auto

declare str_nat.simps [simp del]

text \<open>Python's \<open>str(i)\<close>, as used by the f-string \<open>f"Snooze ({minutes} min)"\<close>.\<close>

definition str_int :: "int \<Rightarrow> string" where
  "str_int i = (if i < 0 then CHR ''-'' # str_nat (nat (- i)) else str_nat (nat i))"

text \<open>
  Python's format specification \<open>02d\<close>: the decimal numeral, padded with zeros after
  the sign to a width of at least two characters.
\<close>

definition fmt_02d :: "int \<Rightarrow> string" where
  "fmt_02d i =
     (if i < 0 then CHR ''-'' # str_nat (nat (- i))
      else replicate (2 - length (str_nat (nat i))) CHR ''0'' @ str_nat (nat i))"

subsection \<open>\<open>humanize\<close>\<close>

text \<open>
  \<^verbatim>\<open>
  def humanize(seconds: int) -> str:
      if seconds < 0:
          seconds = 0
      h = seconds // 3600
      m = (seconds % 3600) // 60
      s = seconds % 60
      if h:
          return f"{h:02d}:{m:02d}:{s:02d}"
      return f"{m:02d}:{s:02d}"
  \<close>
  Python's \<open>//\<close> and \<open>%\<close> round towards minus infinity, as \<open>div\<close> and \<open>mod\<close> on
  \<open>int\<close> do.
\<close>

definition humanize :: "int \<Rightarrow> string" where
  "humanize seconds0 =
     (let seconds = (if seconds0 < 0 then 0 else seconds0);
          h = seconds div 3600;
          m = (seconds mod 3600) div 60;
          s = seconds mod 60
      in if h \<noteq> 0 then fmt_02d h @ '':'' @ fmt_02d m @ '':'' @ fmt_02d s
         else fmt_02d m @ '':'' @ fmt_02d s)"

text \<open>
  The format the specification describes, written from its words and without the
  formatting functions above: a field \<open>HH\<close>, \<open>MM\<close> or \<open>SS\<close> is exactly two
  decimal digits, tens first.
\<close>

definition two_digits :: "int \<Rightarrow> string" where
  "two_digits v = [''0123456789'' ! (nat v div 10 mod 10), ''0123456789'' ! (nat v mod 10)]"

text \<open>
  Reading a decimal numeral: the digits are the characters with codes 48 to 57, and a
  string of digits denotes the number its digits spell, most significant first.
\<close>

definition is_digit :: "char \<Rightarrow> bool" where
  "is_digit c = (48 \<le> (of_char c :: nat) \<and> (of_char c :: nat) \<le> 57)"

definition decimal_value :: "string \<Rightarrow> nat" where
  "decimal_value s = foldl (\<lambda>a c. 10 * a + (of_char c - 48)) 0 s"

subsection \<open>Strings\<close>

text \<open>
  Python's \<open>str.isspace\<close> on the code points below 256: tab to carriage return,
  the four separators 28 to 31, space, next-line (133) and no-break space (160).
\<close>

definition py_isspace :: "char \<Rightarrow> bool" where
  "py_isspace c = (of_char c \<in> {9, 10, 11, 12, 13, 28, 29, 30, 31, 32, 133, 160 :: nat})"

text \<open>\<open>s.strip()\<close>: whitespace removed at both ends.\<close>

definition strip :: "string \<Rightarrow> string" where
  "strip s = rev (dropWhile py_isspace (rev (dropWhile py_isspace s)))"

text \<open>The expression \<open>s or "Timer"\<close>: the empty string is the only falsy string.\<close>

definition or_Timer :: "string \<Rightarrow> string" where
  "or_Timer s = (if s = [] then ''Timer'' else s)"

subsection \<open>\<open>TimerWidget\<close>\<close>

datatype icon = PlayIcon | PauseIcon

text \<open>
  The attributes of a timer widget. \<open>total_t\<close> is \<open>self.total\<close> and \<open>last_t\<close> is
  \<open>self._last\<close>, which does not exist (\<open>None\<close>) until \<open>start\<close> has run once.
  \<open>tick_active\<close> says whether the widget's periodic callback \<open>self._tick\<close> is started.
  \<open>progress_max\<close> and \<open>progress_value\<close> are the arguments of the last \<open>setRange\<close>
  and \<open>setValue\<close> calls on the progress bar.
\<close>

record timer =
  title_edit :: string
  repeat_chk :: bool
  remaining :: real
  total_t :: int
  running :: bool
  last_t :: "real option"
  tick_active :: bool
  time_lbl :: string
  progress_max :: int
  progress_value :: int
  btn_start_icon :: icon

text \<open>
  \<^verbatim>\<open>
  def __init__(self, title: str, seconds: int, repeat: bool=False, parent=None):
      self.title_edit = QLineEdit(title or "Timer")
      self.repeat_chk.setChecked(repeat)
      self.remaining = seconds
      self.total = max(1, seconds)
      self.running = False
      self.time_lbl = QLabel(humanize(self.remaining))
      self.progress.setRange(0, self.total)
      self.progress.setValue(self.total - self.remaining)
      self.btn_start.setIcon(icon_pixmap(play))
      self._tick = QTimer(self); self._tick.setInterval(250)
  \<close>
\<close>

definition TimerWidget_init :: "string \<Rightarrow> int \<Rightarrow> bool \<Rightarrow> timer" where
  "TimerWidget_init title seconds repeat =
     \<lparr> title_edit = or_Timer title,
       repeat_chk = repeat,
       remaining = of_int seconds,
       total_t = max 1 seconds,
       running = False,
       last_t = None,
       tick_active = False,
       time_lbl = humanize seconds,
       progress_max = max 1 seconds,
       progress_value = max 1 seconds - seconds,
       btn_start_icon = PlayIcon \<rparr>"

text \<open>
  \<^verbatim>\<open>
  def set_seconds(self, seconds: int):
      self.remaining = seconds
      self.total = max(1, seconds)
      self.progress.setRange(0, self.total)
      self.progress.setValue(self.total - self.remaining)
      self.time_lbl.setText(humanize(self.remaining))
      self.changed.emit()
  \<close>
  The \<open>changed\<close> signal is handled by the window (\<open>on_list_changed\<close> below).
\<close>

definition set_seconds :: "int \<Rightarrow> timer \<Rightarrow> timer" where
  "set_seconds seconds t =
     t\<lparr> remaining := of_int seconds,
        total_t := max 1 seconds,
        progress_max := max 1 seconds,
        progress_value := max 1 seconds - seconds,
        time_lbl := humanize seconds \<rparr>"

text \<open>
  \<^verbatim>\<open>
  def start(self):
      self.running = True
      self._last = time.time()
      self._tick.start()
      self.btn_start.setIcon(icon_pixmap(pause))
  def pause(self):
      self.running = False
      self._tick.stop()
      self.btn_start.setIcon(icon_pixmap(play))
  def toggle(self):
      if self.running: self.pause()
      else: self.start()
  def reset(self):
      self.pause()
      self.set_seconds(self.total)
  \<close>
  \<open>now\<close> is the clock reading \<open>time.time()\<close> taken by \<open>start\<close>.
\<close>

definition start :: "real \<Rightarrow> timer \<Rightarrow> timer" where
  "start now t =
     t\<lparr> running := True, last_t := Some now, tick_active := True, btn_start_icon := PauseIcon \<rparr>"

definition pause :: "timer \<Rightarrow> timer" where
  "pause t = t\<lparr> running := False, tick_active := False, btn_start_icon := PlayIcon \<rparr>"

definition toggle :: "real \<Rightarrow> timer \<Rightarrow> timer" where
  "toggle now t = (if running t then pause t else start now t)"

definition reset :: "timer \<Rightarrow> timer" where
  "reset t = set_seconds (total_t (pause t)) (pause t)"

text \<open>
  \<open>_on_delete\<close> stops the widget; the window model removes it from the layout
  (\<open>setParent(None)\<close>, \<open>deleteLater()\<close>).
\<close>

definition on_delete :: "timer \<Rightarrow> timer" where
  "on_delete t = t\<lparr> running := False, tick_active := False \<rparr>"

text \<open>Python's \<open>int(x)\<close> on a float truncates towards zero.\<close>

definition py_int :: "real \<Rightarrow> int" where
  "py_int r = (if 0 \<le> r then \<lfloor>r\<rfloor> else \<lceil>r\<rceil>)"

text \<open>
  \<^verbatim>\<open>
  def _on_tick(self):
      now = time.time()
      dt = now - getattr(self, "_last", now)
      self._last = now
      self.remaining -= dt
      if self.remaining <= 0:
          self.remaining = 0
          self.progress.setValue(self.total)
          self.time_lbl.setText(humanize(0))
          self.pause()
          self.finished.emit(self)
          return
      self.time_lbl.setText(humanize(int(self.remaining)))
      self.progress.setValue(self.total - int(self.remaining))
  \<close>
  The result is the widget as it is when the callback reaches \<open>finished.emit\<close> or
  its end, and whether \<open>finished\<close> is emitted. The slot connected to \<open>finished\<close>
  is part of the window (\<open>on_timer_finished\<close>).
\<close>

definition on_tick :: "real \<Rightarrow> timer \<Rightarrow> timer \<times> bool" where
  "on_tick now t =
     (let dt = now - (case last_t t of None \<Rightarrow> now | Some l \<Rightarrow> l);
          t1 = t\<lparr> last_t := Some now, remaining := remaining t - dt \<rparr>
      in if remaining t1 \<le> 0
         then (pause (t1\<lparr> remaining := 0,
                           progress_value := total_t t1,
                           time_lbl := humanize 0 \<rparr>), True)
         else (t1\<lparr> time_lbl := humanize (py_int (remaining t1)),
                    progress_value := total_t t1 - py_int (remaining t1) \<rparr>, False))"

text \<open>
  The widgets the program can hold: built by the constructor and changed by the user's
  edits, by the widget's methods, and by the periodic callback, which fires only while
  it is started.
\<close>

inductive timer_reachable :: "timer \<Rightarrow> bool" where
  reach_init: "timer_reachable (TimerWidget_init title seconds repeat)"
| reach_title: "timer_reachable t \<Longrightarrow> timer_reachable (t\<lparr> title_edit := txt \<rparr>)"
| reach_repeat: "timer_reachable t \<Longrightarrow> timer_reachable (t\<lparr> repeat_chk := b \<rparr>)"
| reach_set_seconds: "timer_reachable t \<Longrightarrow> timer_reachable (set_seconds n t)"
| reach_start: "timer_reachable t \<Longrightarrow> timer_reachable (start now t)"
| reach_pause: "timer_reachable t \<Longrightarrow> timer_reachable (pause t)"
| reach_toggle: "timer_reachable t \<Longrightarrow> timer_reachable (toggle now t)"
| reach_reset: "timer_reachable t \<Longrightarrow> timer_reachable (reset t)"
| reach_delete: "timer_reachable t \<Longrightarrow> timer_reachable (on_delete t)"
| reach_tick: "timer_reachable t \<Longrightarrow> tick_active t \<Longrightarrow> timer_reachable (fst (on_tick now t))"

text \<open>The invariant of the specification: a total of at least one, never exceeded.\<close>

definition timer_inv :: "timer \<Rightarrow> bool" where
  "timer_inv t = (1 \<le> total_t t \<and> remaining t \<le> of_int (total_t t))"

subsection \<open>\<open>SoundPlayer\<close>\<close>

text \<open>
  \<open>effect\<close> says whether \<open>self.effect\<close> holds a sound effect object (it is \<open>None\<close>
  when the multimedia module is missing or its constructor raised).
\<close>

record sound_player =
  effect :: bool

definition SoundPlayer_init :: "bool \<Rightarrow> bool \<Rightarrow> sound_player" where
  "SoundPlayer_init has_sound setup_raises = \<lparr> effect = (has_sound \<and> \<not> setup_raises) \<rparr>"

text \<open>What the sound effect does when \<open>play\<close> calls it: decided by the toolkit.\<close>

datatype effect_outcome = Plays | StopRaises | PlayRaises

text \<open>
  The entries of the log: \<open>EffectStop\<close> and \<open>EffectPlay\<close> are calls of the sound
  effect that returned, \<open>Beep\<close> is a call of \<open>QApplication.beep()\<close>, and
  \<open>TrayShowMessage title message\<close> is a call of the tray icon's \<open>showMessage\<close>.
\<close>

datatype action =
    EffectStop
  | EffectPlay
  | Beep
  | TrayShowMessage string string

text \<open>
  \<^verbatim>\<open>
  def play(self):
      if self.effect:
          try:
              self.effect.stop()
              self.effect.play()
              return
          except Exception:
              pass
      QApplication.beep()
  \<close>
\<close>

definition play :: "sound_player \<Rightarrow> effect_outcome \<Rightarrow> action list" where
  "play sp outcome =
     (if effect sp
      then (case outcome of
              Plays \<Rightarrow> [EffectStop, EffectPlay]
            | StopRaises \<Rightarrow> [Beep]
            | PlayRaises \<Rightarrow> [EffectStop, Beep])
      else [Beep])"

text \<open>An action the user can hear.\<close>

fun audible :: "action \<Rightarrow> bool" where
  "audible EffectPlay = True"
| "audible Beep = True"
| "audible _ = False"

fun is_tray_message :: "action \<Rightarrow> bool" where
  "is_tray_message (TrayShowMessage _ _) = True"
| "is_tray_message _ = False"

subsection \<open>\<open>AlarmOverlay\<close>\<close>

datatype overlay_button = Snooze5 | Snooze10 | Dismiss

text \<open>
  The overlay built by \<open>AlarmOverlay.__init__\<close>: its title, the subtitle label
  \<open>self._title.strip() or "Timer"\<close>, the three buttons of its button row, the
  application-modal window modality, and whether it is shown and full screen.
\<close>

record overlay =
  ov_title :: string
  ov_subtitle :: string
  ov_buttons :: "overlay_button list"
  ov_modal :: bool
  ov_visible :: bool
  ov_fullscreen :: bool

definition AlarmOverlay_init :: "string \<Rightarrow> overlay" where
  "AlarmOverlay_init title =
     \<lparr> ov_title = title,
       ov_subtitle = or_Timer (strip title),
       ov_buttons = [Snooze5, Snooze10, Dismiss],
       ov_modal = True,
       ov_visible = False,
       ov_fullscreen = False \<rparr>"

text \<open>\<open>show_full\<close>: the geometry of the primary screen, then \<open>showFullScreen()\<close>.\<close>

definition show_full :: "overlay \<Rightarrow> overlay" where
  "show_full ov = ov\<lparr> ov_visible := True, ov_fullscreen := True \<rparr>"

datatype overlay_signal = SnoozeRequested int | Dismissed

text \<open>
  \<^verbatim>\<open>
  def _on_snooze(self, minutes: int):
      self.hide()
      self.snoozeRequested.emit(minutes)
  def _on_dismiss(self):
      self.hide()
      self.dismissed.emit()
  \<close>
\<close>

definition overlay_on_snooze :: "int \<Rightarrow> overlay \<Rightarrow> overlay \<times> overlay_signal" where
  "overlay_on_snooze minutes ov = (ov\<lparr> ov_visible := False \<rparr>, SnoozeRequested minutes)"

definition overlay_on_dismiss :: "overlay \<Rightarrow> overlay \<times> overlay_signal" where
  "overlay_on_dismiss ov = (ov\<lparr> ov_visible := False \<rparr>, Dismissed)"

text \<open>
  The \<open>clicked\<close> connections of the three buttons: \<open>lambda: self._on_snooze(5)\<close>,
  \<open>lambda: self._on_snooze(10)\<close> and \<open>self._on_dismiss\<close>.
\<close>

fun button_clicked :: "overlay_button \<Rightarrow> overlay \<Rightarrow> overlay \<times> overlay_signal" where
  "button_clicked Snooze5 ov = overlay_on_snooze 5 ov"
| "button_clicked Snooze10 ov = overlay_on_snooze 10 ov"
| "button_clicked Dismiss ov = overlay_on_dismiss ov"

subsection \<open>\<open>MainWindow\<close>\<close>

text \<open>
  The window: the sound player, the mute checkbox, the inputs of the add-timer form,
  the timer widgets of \<open>list_layout\<close> in layout order, the enabled flag of the
  ``Clear All'' button, whether \<open>self.tray\<close> holds a tray icon (it is \<open>None\<close> when no
  system tray is available), the overlay \<open>self._overlay\<close> of the latest notification,
  the message of the status bar, and the log of sound and tray actions.
\<close>

record main_window =
  sound :: sound_player
  mute_chk :: bool
  name_edit :: string
  h_spin :: int
  m_spin :: int
  s_spin :: int
  repeat_new :: bool
  list_layout :: "timer list"
  clear_btn_enabled :: bool
  tray :: bool
  overlay :: "overlay option"
  status_message :: "string option"
  action_log :: "action list"

text \<open>
  \<^verbatim>\<open>
  def _on_list_changed(self):
      has_items = any(isinstance(self.list_layout.itemAt(i).widget(), TimerWidget)
                      for i in range(self.list_layout.count()))
      self.clear_btn.setEnabled(has_items)
  \<close>
  Only timer widgets are ever added to the layout.
\<close>

definition on_list_changed :: "main_window \<Rightarrow> main_window" where
  "on_list_changed w = w\<lparr> clear_btn_enabled := (list_layout w \<noteq> []) \<rparr>"

text \<open>
  The window as \<open>MainWindow.__init__\<close> leaves it; \<open>sp\<close> is the sound player its
  first lines construct and \<open>tray_available\<close> is the answer of
  \<open>QSystemTrayIcon.isSystemTrayAvailable()\<close>.
\<close>

definition MainWindow_init :: "sound_player \<Rightarrow> bool \<Rightarrow> main_window" where
  "MainWindow_init sp tray_available =
     on_list_changed
       \<lparr> sound = sp, mute_chk = False, name_edit = [], h_spin = 0, m_spin = 0, s_spin = 0,
         repeat_new = False, list_layout = [], clear_btn_enabled = False,
         tray = tray_available, overlay = None, status_message = None, action_log = [] \<rparr>"

text \<open>
  \<^verbatim>\<open>
  def add_timer(self, title: str, seconds: int, repeat: bool):
      w = TimerWidget(title, seconds, repeat)
      w.finished.connect(self._on_timer_finished)
      w.changed.connect(self._on_list_changed)
      self.list_layout.addWidget(w)
      self._on_list_changed()
  \<close>
\<close>

definition add_timer :: "string \<Rightarrow> int \<Rightarrow> bool \<Rightarrow> main_window \<Rightarrow> main_window" where
  "add_timer title seconds repeat w =
     on_list_changed (w\<lparr> list_layout := list_layout w @ [TimerWidget_init title seconds repeat] \<rparr>)"

text \<open>
  \<^verbatim>\<open>
  def add_timer_from_inputs(self):
      h, m, s = self.h_spin.value(), self.m_spin.value(), self.s_spin.value()
      total = h*3600 + m*60 + s
      if total <= 0:
          self.statusBar().showMessage("Please set a duration greater than 0.", 3000)
          return
      name = self.name_edit.text().strip() or "Timer"
      self.add_timer(name, total, self.repeat_new.isChecked())
      self.name_edit.clear()
      self.h_spin.setValue(0); self.m_spin.setValue(0); self.s_spin.setValue(0)
      self.repeat_new.setChecked(False)
  \<close>
\<close>

definition add_timer_from_inputs :: "main_window \<Rightarrow> main_window" where
  "add_timer_from_inputs w =
     (let total = h_spin w * 3600 + m_spin w * 60 + s_spin w
      in if total \<le> 0
         then w\<lparr> status_message := Some ''Please set a duration greater than 0.'' \<rparr>
         else (add_timer (or_Timer (strip (name_edit w))) total (repeat_new w) w)
                \<lparr> name_edit := [], h_spin := 0, m_spin := 0, s_spin := 0, repeat_new := False \<rparr>)"

text \<open>The ranges the constructor gives the three spin boxes.\<close>

definition spin_ranges :: "main_window \<Rightarrow> bool" where
  "spin_ranges w =
     (0 \<le> h_spin w \<and> h_spin w \<le> 23 \<and> 0 \<le> m_spin w \<and> m_spin w \<le> 59 \<and>
      0 \<le> s_spin w \<and> s_spin w \<le> 59)"

text \<open>
  \<^verbatim>\<open>
  def clear_all(self):
      for i in reversed(range(self.list_layout.count())):
          item = self.list_layout.itemAt(i)
          w = item.widget()
          if isinstance(w, TimerWidget):
              w.setParent(None); w.deleteLater()
      self._on_list_changed()
  \<close>
\<close>

definition clear_all :: "main_window \<Rightarrow> main_window" where
  "clear_all w = on_list_changed (w\<lparr> list_layout := [] \<rparr>)"

text \<open>
  \<^verbatim>\<open>
  def _notify(self, title: str):
      if not self.mute_chk.isChecked():
          self.sound.play()
      if self.tray:
          try:
              self.tray.showMessage("SmartTimers", f"{title or 'Timer'} is done.",
                                    QSystemTrayIcon.Information, 5000)
          except Exception:
              pass
      self._overlay = AlarmOverlay(title)
      self._overlay.snoozeRequested.connect(self._on_snooze)
      self._overlay.dismissed.connect(lambda: None)
      self._overlay.show_full()
  \<close>
  An exception of \<open>showMessage\<close> is discarded and the method goes on the same way, so
  the call is logged as made.
\<close>

definition notify :: "string \<Rightarrow> effect_outcome \<Rightarrow> main_window \<Rightarrow> main_window" where
  "notify title outcome w =
     w\<lparr> action_log := action_log w
            @ (if \<not> mute_chk w then play (sound w) outcome else [])
            @ (if tray w then [TrayShowMessage ''SmartTimers'' (or_Timer title @ '' is done.'')]
               else []),
        overlay := Some (show_full (AlarmOverlay_init title)) \<rparr>"

text \<open>
  \<^verbatim>\<open>
  def _on_timer_finished(self, w: TimerWidget):
      title = w.title_edit.text().strip() or "Timer"
      self._notify(title)
      if w.repeat_chk.isChecked():
          w.set_seconds(w.total)
          w.start()
  \<close>
  The widget is named by its position \<open>i\<close> in the layout (the slot is only ever
  called for a widget of the layout, see \<open>timer_tick\<close>); \<open>now\<close> is the clock
  reading taken by \<open>start\<close>.
\<close>

definition on_timer_finished :: "nat \<Rightarrow> effect_outcome \<Rightarrow> real \<Rightarrow> main_window \<Rightarrow> main_window" where
  "on_timer_finished i outcome now w =
     (let t = list_layout w ! i;
          w1 = notify (or_Timer (strip (title_edit t))) outcome w
      in if repeat_chk t
         then on_list_changed
                (w1\<lparr> list_layout := (list_layout w1)[i := start now (set_seconds (total_t t) t)] \<rparr>)
         else w1)"

text \<open>
  The periodic callback of the widget at position \<open>i\<close> fires with clock reading
  \<open>now\<close>; it fires only for a widget of the layout whose callback is started. When the
  widget emits \<open>finished\<close>, the connected slot runs before the callback returns;
  \<open>now2\<close> is the clock reading a restart takes.
\<close>

definition timer_tick :: "nat \<Rightarrow> real \<Rightarrow> real \<Rightarrow> effect_outcome \<Rightarrow> main_window \<Rightarrow> main_window" where
  "timer_tick i now now2 outcome w =
     (if i < length (list_layout w) \<and> tick_active (list_layout w ! i)
      then (case on_tick now (list_layout w ! i) of
              (t, finished) \<Rightarrow>
                (let w1 = w\<lparr> list_layout := (list_layout w)[i := t] \<rparr>
                 in if finished then on_timer_finished i outcome now2 w1 else w1))
      else w)"

text \<open>
  \<^verbatim>\<open>
  def _on_snooze(self, minutes: int):
      label = f"Snooze ({minutes} min)"
      self.add_timer(label, minutes*60, repeat=False)
  \<close>
\<close>

definition on_snooze :: "int \<Rightarrow> main_window \<Rightarrow> main_window" where
  "on_snooze minutes w =
     add_timer (''Snooze ('' @ str_int minutes @ '' min)'') (minutes * 60) False w"

text \<open>
  The connections \<open>_notify\<close> makes: \<open>snoozeRequested\<close> to \<open>_on_snooze\<close>,
  \<open>dismissed\<close> to \<open>lambda: None\<close>.
\<close>

fun deliver :: "overlay_signal \<Rightarrow> main_window \<Rightarrow> main_window" where
  "deliver (SnoozeRequested minutes) w = on_snooze minutes w"
| "deliver Dismissed w = w"

text \<open>
  A click on a button of the current overlay: the overlay's handler runs, then the slot
  connected to the signal it emits. Without an overlay there is nothing to click.
\<close>

definition click :: "overlay_button \<Rightarrow> main_window \<Rightarrow> main_window" where
  "click b w =
     (case overlay w of
        None \<Rightarrow> w
      | Some ov \<Rightarrow>
          (case button_clicked b ov of
             (ov', sig) \<Rightarrow> deliver sig (w\<lparr> overlay := Some ov' \<rparr>)))"

text \<open>
  The three tool buttons of the widget at position \<open>i\<close>: start/pause is connected to
  \<open>toggle\<close>, reset to \<open>reset\<close> (whose \<open>changed\<close> signal reaches
  \<open>_on_list_changed\<close>), delete to \<open>_on_delete\<close>, which takes the widget out of the
  layout and emits \<open>changed\<close>.
\<close>

definition toggle_clicked :: "nat \<Rightarrow> real \<Rightarrow> main_window \<Rightarrow> main_window" where
  "toggle_clicked i now w =
     (if i < length (list_layout w)
      then w\<lparr> list_layout := (list_layout w)[i := toggle now (list_layout w ! i)] \<rparr>
      else w)"

definition reset_clicked :: "nat \<Rightarrow> main_window \<Rightarrow> main_window" where
  "reset_clicked i w =
     (if i < length (list_layout w)
      then on_list_changed (w\<lparr> list_layout := (list_layout w)[i := reset (list_layout w ! i)] \<rparr>)
      else w)"

definition delete_clicked :: "nat \<Rightarrow> main_window \<Rightarrow> main_window" where
  "delete_clicked i w =
     (if i < length (list_layout w)
      then on_list_changed (w\<lparr> list_layout := take i (list_layout w) @ drop (Suc i) (list_layout w) \<rparr>)
      else w)"

subsection \<open>Concrete scenarios\<close>

text \<open>
  A freshly opened window with a working sound effect and a system tray, and the same
  window after a ten-second timer called ``Tea'' has been added and its start button
  pressed at clock reading 0.
\<close>

abbreviation window0 :: main_window where
  "window0 \<equiv> MainWindow_init (SoundPlayer_init True False) True"

abbreviation running_window :: "bool \<Rightarrow> bool \<Rightarrow> main_window" where
  "running_window repeat mute \<equiv>
     toggle_clicked 0 0 (add_timer ''Tea'' 10 repeat (window0\<lparr> mute_chk := mute \<rparr>))"


section \<open>Properties\<close>


subsection \<open>Formatting\<close>

lemma of_char_digit_char: "d < 10 \<Longrightarrow> (of_char (digit_char d) :: nat) = 48 + d"
proof -
  assume "d < 10"
  then have "d \<in> {0, 1, 2, 3, 4, 5, 6, 7, 8, 9}"
    by auto
  then show ?thesis
    by (auto simp add: digit_char_def)
qed

lemma str_nat_lt10: "n < 10 \<Longrightarrow> str_nat n = [digit_char n]"
  by (simp add: str_nat.simps)

lemma str_nat_lt100:
  "10 \<le> n \<Longrightarrow> n < 100 \<Longrightarrow> str_nat n = [digit_char (n div 10), digit_char (n mod 10)]"
  by (subst str_nat.simps) (simp add: str_nat_lt10)

lemma str_nat_nonempty: "str_nat n \<noteq> []"
  by (subst str_nat.simps) simp

lemma length_str_nat_ge: "10 \<le> n \<Longrightarrow> 2 \<le> length (str_nat n)"
proof -
  assume "10 \<le> n"
  moreover have "0 < length (str_nat (n div 10))"
    using str_nat_nonempty by blast
  ultimately show ?thesis
    by (subst str_nat.simps) (simp add: Suc_le_eq)
qed

lemma length_str_nat_ge100: "100 \<le> n \<Longrightarrow> 3 \<le> length (str_nat n)"
proof -
  assume a: "100 \<le> n"
  then have "10 \<le> n div 10"
    by simp
  then have "2 \<le> length (str_nat (n div 10))"
    by (rule length_str_nat_ge)
  then show ?thesis
    using a by (subst str_nat.simps) simp
qed

lemma decimal_value_snoc:
  "decimal_value (s @ [c]) = 10 * decimal_value s + (of_char c - 48)"
  by (simp add: decimal_value_def)

lemma decimal_value_str_nat: "decimal_value (str_nat n) = n"
proof (induction n rule: str_nat.induct)
  case (1 n)
  show ?case
  proof (cases "n < 10")
    case True
    then show ?thesis
      by (simp add: str_nat_lt10 decimal_value_def of_char_digit_char)
  next
    case False
    then have "decimal_value (str_nat (n div 10)) = n div 10"
      using "1" by simp
    moreover have "str_nat n = str_nat (n div 10) @ [digit_char (n mod 10)]"
      using False by (subst str_nat.simps) simp
    ultimately show ?thesis
      by (simp add: decimal_value_snoc of_char_digit_char)
  qed
qed

lemma digits_str_nat: "list_all is_digit (str_nat n)"
proof (induction n rule: str_nat.induct)
  case (1 n)
  show ?case
  proof (cases "n < 10")
    case True
    then show ?thesis
      by (simp add: str_nat_lt10 is_digit_def of_char_digit_char)
  next
    case False
    then have "list_all is_digit (str_nat (n div 10))"
      using "1" by simp
    moreover have "str_nat n = str_nat (n div 10) @ [digit_char (n mod 10)]"
      using False by (subst str_nat.simps) simp
    ultimately show ?thesis
      by (simp add: is_digit_def of_char_digit_char list_all_iff)
  qed
qed

lemma hd_str_nat: "0 < n \<Longrightarrow> hd (str_nat n) \<noteq> CHR ''0''"
proof (induction n rule: str_nat.induct)
  case (1 n)
  show ?case
  proof (cases "n < 10")
    case True
    have "(of_char (digit_char n) :: nat) \<noteq> of_char CHR ''0''"
      using True "1.prems" by (simp add: of_char_digit_char)
    then have "digit_char n \<noteq> CHR ''0''"
      by auto
    then show ?thesis
      using True by (simp add: str_nat_lt10)
  next
    case False
    then have "hd (str_nat (n div 10)) \<noteq> CHR ''0''"
      using "1.IH" by simp
    moreover have "str_nat n = str_nat (n div 10) @ [digit_char (n mod 10)]"
      using False by (subst str_nat.simps) simp
    ultimately show ?thesis
      by (simp add: str_nat_nonempty)
  qed
qed

lemma fmt_02d_two_digits: "0 \<le> v \<Longrightarrow> v < 100 \<Longrightarrow> fmt_02d v = two_digits v"
proof -
  assume a: "0 \<le> v" "v < 100"
  show ?thesis
  proof (cases "nat v < 10")
    case True
    then show ?thesis
      using a by (simp add: fmt_02d_def two_digits_def str_nat_lt10 digit_char_def)
  next
    case False
    then have b: "10 \<le> nat v" "nat v < 100"
      using a by auto
    then have "nat v div 10 mod 10 = nat v div 10"
      by simp
    then show ?thesis
      using a b by (simp add: fmt_02d_def two_digits_def str_nat_lt100 digit_char_def)
  qed
qed

lemma fmt_02d_ge100: "100 \<le> h \<Longrightarrow> fmt_02d h = str_nat (nat h)"
proof -
  assume a: "100 \<le> h"
  then have "100 \<le> nat h"
    by simp
  then have "3 \<le> length (str_nat (nat h))"
    by (rule length_str_nat_ge100)
  then show ?thesis
    using a by (simp add: fmt_02d_def)
qed

text \<open>
  Claim C10, amended. For every integer \<open>seconds\<close> with \<open>0 \<le> seconds < 3600\<close>,
  \<open>humanize\<close> returns the zero-padded string \<open>MM:SS\<close> with \<open>MM = seconds div 60\<close>
  and \<open>SS = seconds mod 60\<close>; for every \<open>seconds\<close> with
  \<open>3600 \<le> seconds < 360000\<close> it returns \<open>HH:MM:SS\<close> with \<open>HH = seconds div 3600\<close>
  in two digits; from 360000 seconds on the hour field is the decimal numeral of
  \<open>seconds div 3600\<close>, three or more digits without a leading zero, followed by
  \<open>:MM:SS\<close>; and for every negative \<open>seconds\<close> it returns \<open>00:00\<close>. The fields
  are those of the specification (\<open>two_digits\<close>) and the hour numeral is described by
  what it reads as (\<open>decimal_value\<close>), not by the formatting code of the source.
\<close>

theorem humanize_format:
  "(0 \<le> seconds \<and> seconds < 3600 \<longrightarrow>
      humanize seconds = two_digits (seconds div 60) @ '':'' @ two_digits (seconds mod 60)) \<and>
   (3600 \<le> seconds \<and> seconds < 360000 \<longrightarrow>
      humanize seconds = two_digits (seconds div 3600) @ '':'' @
        two_digits ((seconds mod 3600) div 60) @ '':'' @ two_digits (seconds mod 60)) \<and>
   (360000 \<le> seconds \<longrightarrow>
      (\<exists>hs. humanize seconds = hs @ '':'' @
               two_digits ((seconds mod 3600) div 60) @ '':'' @ two_digits (seconds mod 60) \<and>
            3 \<le> length hs \<and> list_all is_digit hs \<and> hd hs \<noteq> CHR ''0'' \<and>
            int (decimal_value hs) = seconds div 3600)) \<and>
   (seconds < 0 \<longrightarrow> humanize seconds = ''00:00'')"
proof (intro conjI impI)
  assume a: "0 \<le> seconds \<and> seconds < 3600"
  then have h0: "seconds div 3600 = 0" and m: "seconds mod 3600 = seconds"
    by simp_all
  have "0 \<le> seconds div 60" "seconds div 60 < 100"
    using a by auto
  moreover have "0 \<le> seconds mod 60" "seconds mod 60 < 100"
    by (auto intro: pos_mod_bound[THEN less_trans])
  ultimately show "humanize seconds = two_digits (seconds div 60) @ '':'' @ two_digits (seconds mod 60)"
    using a h0 m by (simp add: humanize_def Let_def fmt_02d_two_digits)
next
  assume a: "3600 \<le> seconds \<and> seconds < 360000"
  then have h: "0 < seconds div 3600" "seconds div 3600 < 100"
    by (simp add: pos_imp_zdiv_pos_iff, arith)
  have "0 \<le> (seconds mod 3600) div 60" "(seconds mod 3600) div 60 < 100"
    by auto
  moreover have "0 \<le> seconds mod 60" "seconds mod 60 < 100"
    by (auto intro: pos_mod_bound[THEN less_trans])
  ultimately show "humanize seconds = two_digits (seconds div 3600) @ '':'' @
        two_digits ((seconds mod 3600) div 60) @ '':'' @ two_digits (seconds mod 60)"
    using a h by (simp add: humanize_def Let_def fmt_02d_two_digits)
next
  assume a: "360000 \<le> seconds"
  then have h: "100 \<le> seconds div 3600"
    by arith
  have m: "0 \<le> (seconds mod 3600) div 60" "(seconds mod 3600) div 60 < 100"
    by auto
  have s: "0 \<le> seconds mod 60" "seconds mod 60 < 100"
    by (auto intro: pos_mod_bound[THEN less_trans])
  let ?hs = "str_nat (nat (seconds div 3600))"
  have "humanize seconds = ?hs @ '':'' @
               two_digits ((seconds mod 3600) div 60) @ '':'' @ two_digits (seconds mod 60)"
    using a h m s by (simp add: humanize_def Let_def fmt_02d_two_digits fmt_02d_ge100)
  moreover have "3 \<le> length ?hs"
    using h by (simp add: length_str_nat_ge100)
  moreover have "list_all is_digit ?hs"
    by (rule digits_str_nat)
  moreover have "hd ?hs \<noteq> CHR ''0''"
    using h by (simp add: hd_str_nat)
  moreover have "int (decimal_value ?hs) = seconds div 3600"
    using h by (simp add: decimal_value_str_nat)
  ultimately show "\<exists>hs. humanize seconds = hs @ '':'' @
               two_digits ((seconds mod 3600) div 60) @ '':'' @ two_digits (seconds mod 60) \<and>
            3 \<le> length hs \<and> list_all is_digit hs \<and> hd hs \<noteq> CHR ''0'' \<and>
            int (decimal_value hs) = seconds div 3600"
    by blast
next
  assume "seconds < 0"
  then show "humanize seconds = ''00:00''"
    by (simp add: humanize_def Let_def fmt_02d_def str_nat_lt10 digit_char_def)
qed

lemma str_nat_100: "str_nat 100 = ''100''"
  by (subst str_nat.simps, subst str_nat.simps, subst str_nat.simps) (simp add: digit_char_def)

lemma humanize_360000: "humanize 360000 = ''100:00:00''"
  by (simp add: humanize_def Let_def fmt_02d_def str_nat_100 str_nat_lt10 digit_char_def)

theorem humanize_format_witness:
  "humanize 754 = ''12:34'' \<and> humanize 3725 = ''01:02:05'' \<and> humanize (- 7) = ''00:00'' \<and>
   (360000::int) \<le> 360000 \<and>
   (\<exists>hs. humanize 360000 = hs @ '':00:00'' \<and> 3 \<le> length hs \<and> list_all is_digit hs \<and>
      hd hs \<noteq> CHR ''0'' \<and> decimal_value hs = 100)"
  using humanize_format [of 754] humanize_format [of 3725] humanize_format [of "- 7"]
    humanize_format [of 360000]
  by (simp add: two_digits_def)

text \<open>
  As first stated the claim gives the pattern \<open>HH:MM:SS\<close> to every
  \<open>seconds \<ge> 3600\<close>; at one hundred hours the result has a three-digit hour field and
  nine characters.
\<close>

theorem humanize_100_hours_counterexample:
  "humanize 360000 = ''100:00:00'' \<and>
   length (humanize 360000) \<noteq> length ''HH:MM:SS'' \<and>
   humanize 360000 \<noteq> two_digits (360000 div 3600) @ '':'' @
     two_digits ((360000 mod 3600) div 60) @ '':'' @ two_digits (360000 mod 60)"
  by (simp add: humanize_360000 two_digits_def)

subsection \<open>The timer widget\<close>

lemma on_tick_frame:
  "total_t (fst (on_tick now t)) = total_t t \<and> title_edit (fst (on_tick now t)) = title_edit t \<and>
   repeat_chk (fst (on_tick now t)) = repeat_chk t \<and> last_t (fst (on_tick now t)) = Some now"
  by (simp add: on_tick_def Let_def pause_def)

lemma reachable_total_ge1: "timer_reachable t \<Longrightarrow> 1 \<le> total_t t"
proof (induction rule: timer_reachable.induct)
  case (reach_tick t now)
  then show ?case by (simp add: on_tick_frame)
qed (simp_all add: TimerWidget_init_def set_seconds_def start_def pause_def toggle_def reset_def on_delete_def)

lemma reachable_last_set: "timer_reachable t \<Longrightarrow> tick_active t \<Longrightarrow> last_t t \<noteq> None"
proof (induction rule: timer_reachable.induct)
  case (reach_tick t now)
  then show ?case by (simp add: on_tick_frame)
next
  case (reach_toggle t now)
  then show ?case by (cases "running t") (simp_all add: toggle_def start_def pause_def)
qed (simp_all add: TimerWidget_init_def set_seconds_def start_def pause_def reset_def on_delete_def)

lemma on_tick_finished_iff:
  "snd (on_tick now t) \<longleftrightarrow>
     remaining t - (now - (case last_t t of None \<Rightarrow> now | Some l \<Rightarrow> l)) \<le> 0"
  by (simp add: on_tick_def Let_def)

lemma on_tick_finished_state:
  "snd (on_tick now t) \<Longrightarrow>
     remaining (fst (on_tick now t)) = 0 \<and> \<not> running (fst (on_tick now t)) \<and>
     \<not> tick_active (fst (on_tick now t))"
  by (simp add: on_tick_def Let_def pause_def split: if_splits)

lemma on_tick_running:
  "last_t t = Some l \<Longrightarrow> 0 < remaining t - (now - l) \<Longrightarrow>
     remaining (fst (on_tick now t)) = remaining t - (now - l) \<and>
     running (fst (on_tick now t)) = running t \<and>
     tick_active (fst (on_tick now t)) = tick_active t \<and> \<not> snd (on_tick now t)"
  by (simp add: on_tick_def Let_def)

lemma on_tick_expired:
  "last_t t = Some l \<Longrightarrow> remaining t - (now - l) \<le> 0 \<Longrightarrow>
     remaining (fst (on_tick now t)) = 0 \<and> \<not> running (fst (on_tick now t)) \<and>
     \<not> tick_active (fst (on_tick now t)) \<and> snd (on_tick now t)"
  by (simp add: on_tick_def Let_def pause_def)

text \<open>
  Claim C4. The start/pause control of a timer is a two-state toggle: one application of
  toggle negates the running boolean (it starts the periodic callback when the timer was
  not running and stops it when it was), so two consecutive toggles restore the original
  running state.
\<close>

theorem toggle_two_state:
  "running (toggle now t) = (\<not> running t) \<and>
   tick_active (toggle now t) = (\<not> running t) \<and>
   running (toggle now2 (toggle now t)) = running t"
  by (simp add: toggle_def start_def pause_def)

text \<open>
  Claim C5. For every timer the program can hold, reset sets the remaining time to the
  timer's total duration and leaves the timer not running, while the total duration, the
  title text and the repeat flag stay as they were.
\<close>

theorem reset_frame:
  assumes "timer_reachable t"
  shows "remaining (reset t) = of_int (total_t t) \<and> \<not> running (reset t) \<and>
         \<not> tick_active (reset t) \<and>
         total_t (reset t) = total_t t \<and> title_edit (reset t) = title_edit t \<and>
         repeat_chk (reset t) = repeat_chk t"
proof -
  have "1 \<le> total_t t" using assms by (rule reachable_total_ge1)
  then show ?thesis by (simp add: reset_def set_seconds_def pause_def)
qed

theorem reset_frame_witness:
  "timer_reachable (fst (on_tick 4 (start 1 (TimerWidget_init ''Tea'' 10 True)))) \<and>
   remaining (reset (fst (on_tick 4 (start 1 (TimerWidget_init ''Tea'' 10 True))))) = 10 \<and>
   total_t (reset (fst (on_tick 4 (start 1 (TimerWidget_init ''Tea'' 10 True))))) = 10 \<and>
   \<not> running (reset (fst (on_tick 4 (start 1 (TimerWidget_init ''Tea'' 10 True))))) \<and>
   title_edit (reset (fst (on_tick 4 (start 1 (TimerWidget_init ''Tea'' 10 True))))) = ''Tea'' \<and>
   repeat_chk (reset (fst (on_tick 4 (start 1 (TimerWidget_init ''Tea'' 10 True)))))"
proof -
  have r: "timer_reachable (fst (on_tick 4 (start 1 (TimerWidget_init ''Tea'' 10 True))))"
    by (rule reach_tick, rule reach_start, rule reach_init) (simp add: start_def)
  have v: "total_t (fst (on_tick 4 (start 1 (TimerWidget_init ''Tea'' 10 True)))) = 10"
     "title_edit (fst (on_tick 4 (start 1 (TimerWidget_init ''Tea'' 10 True)))) = ''Tea''"
     "repeat_chk (fst (on_tick 4 (start 1 (TimerWidget_init ''Tea'' 10 True))))"
    by (simp_all add: on_tick_frame start_def TimerWidget_init_def or_Timer_def)
  show ?thesis using r reset_frame [OF r] v by simp
qed

text \<open>
  Claim C6, amended. On every periodic tick of a running timer, the remaining time
  decreases by exactly the difference between the tick's clock reading and the reading
  stored in \<open>_last\<close>; \<open>_last\<close> is written by every tick and by every start, and by
  nothing else, so the time a timer spends paused is not subtracted. When the result
  reaches or passes zero, the remaining time is set to exactly zero, the timer pauses and
  \<open>finished\<close> is emitted.
\<close>

theorem tick_decrement:
  assumes "timer_reachable t" and "tick_active t"
  shows "\<exists>l. last_t t = Some l \<and>
     (0 < remaining t - (now - l) \<longrightarrow>
        remaining (fst (on_tick now t)) = remaining t - (now - l) \<and>
        running (fst (on_tick now t)) = running t \<and> \<not> snd (on_tick now t)) \<and>
     (remaining t - (now - l) \<le> 0 \<longrightarrow>
        remaining (fst (on_tick now t)) = 0 \<and> \<not> running (fst (on_tick now t)) \<and>
        \<not> tick_active (fst (on_tick now t)) \<and> snd (on_tick now t)) \<and>
     last_t (fst (on_tick now t)) = Some now \<and>
     last_t (start now t) = Some now \<and>
     last_t (pause t) = last_t t \<and>
     last_t (set_seconds n t) = last_t t \<and>
     last_t (reset t) = last_t t"
proof -
  from assms obtain l where l: "last_t t = Some l"
    using reachable_last_set by blast
  have "last_t (fst (on_tick now t)) = Some now \<and> last_t (start now t) = Some now \<and>
     last_t (pause t) = last_t t \<and> last_t (set_seconds n t) = last_t t \<and>
     last_t (reset t) = last_t t"
    by (simp add: on_tick_frame start_def pause_def set_seconds_def reset_def)
  with l on_tick_running [OF l] on_tick_expired [OF l] show ?thesis
    by blast
qed

theorem tick_decrement_witness:
  "timer_reachable (start 50 (pause (fst (on_tick 1 (start 0 (TimerWidget_init ''T'' 100 False)))))) \<and>
   tick_active (start 50 (pause (fst (on_tick 1 (start 0 (TimerWidget_init ''T'' 100 False)))))) \<and>
   last_t (start 50 (pause (fst (on_tick 1 (start 0 (TimerWidget_init ''T'' 100 False)))))) = Some 50 \<and>
   remaining (start 50 (pause (fst (on_tick 1 (start 0 (TimerWidget_init ''T'' 100 False)))))) = 99 \<and>
   remaining (fst (on_tick 51 (start 50 (pause (fst (on_tick 1 (start 0 (TimerWidget_init ''T'' 100 False)))))))) = 98 \<and>
   remaining (fst (on_tick 200 (start 50 (pause (fst (on_tick 1 (start 0 (TimerWidget_init ''T'' 100 False)))))))) = 0 \<and>
   \<not> running (fst (on_tick 200 (start 50 (pause (fst (on_tick 1 (start 0 (TimerWidget_init ''T'' 100 False))))))))"
proof -
  have r: "timer_reachable (start 50 (pause (fst (on_tick 1 (start 0 (TimerWidget_init ''T'' 100 False))))))"
    by (rule reach_start, rule reach_pause, rule reach_tick, rule reach_start, rule reach_init)
       (simp add: start_def)
  have a: "tick_active (start 50 (pause (fst (on_tick 1 (start 0 (TimerWidget_init ''T'' 100 False))))))"
    by (simp add: start_def)
  have v: "last_t (start 50 (pause (fst (on_tick 1 (start 0 (TimerWidget_init ''T'' 100 False)))))) = Some 50"
     "remaining (start 50 (pause (fst (on_tick 1 (start 0 (TimerWidget_init ''T'' 100 False)))))) = 99"
    by (simp_all add: start_def pause_def on_tick_def Let_def TimerWidget_init_def)
  show ?thesis
    using r a v tick_decrement [OF r a, of 51] tick_decrement [OF r a, of 200] by simp
qed

text \<open>
  The claim as first stated, ``the time elapsed since the previous tick'', fails after a
  pause: started at reading 0, ticked at 1, paused, started again at 50 and ticked at 51,
  the timer loses one second at the last tick, while 50 seconds have passed since the
  previous tick.
\<close>

theorem tick_since_previous_tick_counterexample:
  "remaining (start 50 (pause (fst (on_tick 1 (start 0 (TimerWidget_init ''T'' 100 False))))))
     - remaining (fst (on_tick 51 (start 50 (pause (fst (on_tick 1 (start 0 (TimerWidget_init ''T'' 100 False))))))))
   = 1 \<and>
   remaining (start 50 (pause (fst (on_tick 1 (start 0 (TimerWidget_init ''T'' 100 False))))))
     - remaining (fst (on_tick 51 (start 50 (pause (fst (on_tick 1 (start 0 (TimerWidget_init ''T'' 100 False))))))))
   \<noteq> 51 - 1"
  by (simp add: start_def pause_def on_tick_def Let_def TimerWidget_init_def)

text \<open>
  Claim C9, amended. The total duration of a timer is at least 1 and the remaining time
  never exceeds the total: this holds after construction and after \<open>set_seconds\<close>
  (with 0 seconds the total is 1), and it is preserved by start, pause, reset, the
  restart of a repeating timer, and by every tick whose clock reading is not earlier than
  the reading stored by the previous start or tick.
\<close>

theorem timer_invariant:
  "timer_inv (TimerWidget_init title seconds repeat) \<and>
   total_t (TimerWidget_init title 0 repeat) = 1 \<and>
   timer_inv (set_seconds n t) \<and>
   total_t (set_seconds 0 t) = 1 \<and>
   (timer_inv t \<longrightarrow>
      timer_inv (start now t) \<and> timer_inv (pause t) \<and> timer_inv (reset t) \<and>
      timer_inv (start now (set_seconds (total_t t) t)) \<and>
      ((case last_t t of None \<Rightarrow> True | Some l \<Rightarrow> l \<le> now) \<longrightarrow>
         timer_inv (fst (on_tick now t))))"
  by (auto simp add: timer_inv_def TimerWidget_init_def set_seconds_def start_def pause_def
        reset_def on_tick_def Let_def split: option.splits)

theorem timer_invariant_witness:
  "timer_inv (start 0 (TimerWidget_init ''Tea'' 10 False)) \<and>
   last_t (start 0 (TimerWidget_init ''Tea'' 10 False)) = Some 0 \<and> (0::real) \<le> 3 \<and>
   timer_inv (fst (on_tick 3 (start 0 (TimerWidget_init ''Tea'' 10 False)))) \<and>
   timer_inv (reset (start 0 (TimerWidget_init ''Tea'' 10 False)))"
proof -
  have i: "timer_inv (start 0 (TimerWidget_init ''Tea'' 10 False))"
    by (simp add: timer_inv_def start_def TimerWidget_init_def)
  have l: "last_t (start 0 (TimerWidget_init ''Tea'' 10 False)) = Some 0"
    by (simp add: start_def)
  show ?thesis
    using i l timer_invariant [of "''Tea''" 10 False 0 "start 0 (TimerWidget_init ''Tea'' 10 False)" 3]
    by simp
qed

text \<open>
  Without the condition on the clock the invariant is lost: a timer of 10 seconds started
  at reading 100 and ticked at reading 99, after the wall clock was set back, has 11
  seconds remaining.
\<close>

theorem tick_clock_set_back_counterexample:
  "timer_inv (start 100 (TimerWidget_init ''Tea'' 10 False)) \<and>
   \<not> timer_inv (fst (on_tick 99 (start 100 (TimerWidget_init ''Tea'' 10 False))))"
  by (simp add: timer_inv_def start_def on_tick_def Let_def TimerWidget_init_def)

subsection \<open>Sound and notification\<close>

lemma play_audible: "list_ex audible (play sp outcome)"
  by (cases outcome) (simp_all add: play_def)

lemma notify_log:
  "action_log (notify title outcome w) =
     action_log w @ (if mute_chk w then [] else play (sound w) outcome)
           @ (if tray w then [TrayShowMessage ''SmartTimers'' (or_Timer title @ '' is done.'')] else [])"
  by (simp add: notify_def)

lemma notify_overlay:
  "overlay (notify title outcome w) =
     Some \<lparr> ov_title = title, ov_subtitle = or_Timer (strip title),
            ov_buttons = [Snooze5, Snooze10, Dismiss], ov_modal = True,
            ov_visible = True, ov_fullscreen = True \<rparr>"
  by (simp add: notify_def show_full_def AlarmOverlay_init_def)

lemma notify_frame:
  "list_layout (notify title outcome w) = list_layout w \<and> mute_chk (notify title outcome w) = mute_chk w
   \<and> tray (notify title outcome w) = tray w \<and> sound (notify title outcome w) = sound w"
  by (simp add: notify_def)

lemma on_timer_finished_log:
  "action_log (on_timer_finished i outcome now w) =
     action_log (notify (or_Timer (strip (title_edit (list_layout w ! i)))) outcome w)"
  by (simp add: on_timer_finished_def Let_def on_list_changed_def notify_def)

lemma on_timer_finished_overlay:
  "overlay (on_timer_finished i outcome now w) =
     overlay (notify (or_Timer (strip (title_edit (list_layout w ! i)))) outcome w)"
  by (simp add: on_timer_finished_def Let_def on_list_changed_def notify_def)

lemma on_timer_finished_timer:
  "i < length (list_layout w) \<Longrightarrow>
   list_layout (on_timer_finished i outcome now w) ! i =
     (if repeat_chk (list_layout w ! i)
      then start now (set_seconds (total_t (list_layout w ! i)) (list_layout w ! i))
      else list_layout w ! i)"
  by (simp add: on_timer_finished_def Let_def on_list_changed_def notify_def)

lemma or_Timer_idem: "or_Timer (or_Timer s) = or_Timer s"
  by (simp add: or_Timer_def)

lemma timer_tick_expired:
  assumes "i < length (list_layout w)" and "tick_active (list_layout w ! i)"
    and "snd (on_tick now (list_layout w ! i))"
  shows "timer_tick i now now2 outcome w =
     on_timer_finished i outcome now2
       (w\<lparr> list_layout := (list_layout w)[i := fst (on_tick now (list_layout w ! i))] \<rparr>)"
  using assms by (cases "on_tick now (list_layout w ! i)") (simp add: timer_tick_def)

lemma running_window_layout:
  "list_layout (running_window r m) = [start 0 (TimerWidget_init ''Tea'' 10 r)]"
  by (simp add: toggle_clicked_def add_timer_def on_list_changed_def MainWindow_init_def
        toggle_def TimerWidget_init_def)

lemma running_window_fields:
  "action_log (running_window r m) = [] \<and> mute_chk (running_window r m) = m \<and>
   tray (running_window r m) \<and> effect (sound (running_window r m))"
  by (simp add: toggle_clicked_def add_timer_def on_list_changed_def MainWindow_init_def
        SoundPlayer_init_def)

lemma running_window_expires:
  "0 < length (list_layout (running_window r m)) \<and>
   tick_active (list_layout (running_window r m) ! 0) \<and>
   snd (on_tick 12 (list_layout (running_window r m) ! 0)) \<and>
   timer_reachable (list_layout (running_window r m) ! 0)"
proof -
  have "timer_reachable (start 0 (TimerWidget_init ''Tea'' 10 r))"
    by (rule reach_start, rule reach_init)
  then show ?thesis
    by (simp add: running_window_layout on_tick_finished_iff) (simp add: start_def TimerWidget_init_def)
qed

text \<open>
  Claim C7, amended. Playing the notification sound always ends in something audible: the
  sound effect when it is there and both of its calls return, the application beep when
  the effect is missing or one of its calls raises. When no system tray is available the
  notification still shows the overlay and, unless the mute checkbox is checked, plays
  the sound; compared with a window that has a tray, only the tray message is missing.
\<close>

theorem play_falls_back:
  "list_ex audible (play sp outcome) \<and>
   (effect sp \<and> outcome = Plays \<longrightarrow> play sp outcome = [EffectStop, EffectPlay]) \<and>
   (\<not> effect sp \<or> outcome \<noteq> Plays \<longrightarrow>
      last (play sp outcome) = Beep \<and> EffectPlay \<notin> set (play sp outcome)) \<and>
   (\<not> tray w \<longrightarrow>
      action_log (notify title outcome w) =
        action_log w @ (if mute_chk w then [] else play (sound w) outcome) \<and>
      \<not> list_ex is_tray_message (if mute_chk w then [] else play (sound w) outcome) \<and>
      overlay (notify title outcome w) = Some (show_full (AlarmOverlay_init title)) \<and>
      action_log (notify title outcome (w\<lparr> tray := True \<rparr>)) =
        action_log (notify title outcome w)
        @ [TrayShowMessage ''SmartTimers'' (or_Timer title @ '' is done.'')] \<and>
      overlay (notify title outcome (w\<lparr> tray := True \<rparr>)) = overlay (notify title outcome w))"
  by (cases outcome) (simp_all add: play_def notify_def)

theorem play_falls_back_witness:
  "\<not> effect (SoundPlayer_init False False) \<and>
   play (SoundPlayer_init False False) Plays = [Beep] \<and>
   play (SoundPlayer_init True False) PlayRaises = [EffectStop, Beep] \<and>
   play (SoundPlayer_init True False) Plays = [EffectStop, EffectPlay] \<and>
   \<not> tray (MainWindow_init (SoundPlayer_init True False) False) \<and>
   action_log (notify ''Tea'' Plays (MainWindow_init (SoundPlayer_init True False) False))
     = [EffectStop, EffectPlay]"
  using play_falls_back [of "SoundPlayer_init False False" Plays
           "MainWindow_init (SoundPlayer_init True False) False" "''Tea''"]
        play_falls_back [of "SoundPlayer_init True False" PlayRaises
           "MainWindow_init (SoundPlayer_init True False) False" "''Tea''"]
        play_falls_back [of "SoundPlayer_init True False" Plays
           "MainWindow_init (SoundPlayer_init True False) False" "''Tea''"]
  by (simp add: SoundPlayer_init_def MainWindow_init_def on_list_changed_def play_def)

text \<open>
  As first stated the claim promises the sound whenever the tray is missing; with the
  mute checkbox checked the notification makes no sound call at all.
\<close>

theorem no_tray_muted_counterexample:
  "\<not> tray ((MainWindow_init (SoundPlayer_init True False) False)\<lparr> mute_chk := True \<rparr>) \<and>
   action_log (notify ''Tea'' Plays
      ((MainWindow_init (SoundPlayer_init True False) False)\<lparr> mute_chk := True \<rparr>)) = []"
  by (simp add: notify_def MainWindow_init_def on_list_changed_def)

text \<open>
  Claim C1, amended. For every timer of the window, when a tick brings its remaining time
  to zero (the callback emits \<open>finished\<close>), the window notifies: unless the mute
  checkbox is checked the sound player plays, which is always audible; when a system tray
  is available the tray icon is asked to show the message ``<title> is done.''; and a
  full-screen, application-modal overlay with the buttons snooze 5, snooze 10 and dismiss
  is shown.
\<close>

theorem expiry_notification:
  assumes "i < length (list_layout w)" and "tick_active (list_layout w ! i)"
    and "snd (on_tick now (list_layout w ! i))"
  shows "action_log (timer_tick i now now2 outcome w) =
           action_log w
           @ (if mute_chk w then [] else play (sound w) outcome)
           @ (if tray w
              then [TrayShowMessage ''SmartTimers''
                      (or_Timer (strip (title_edit (list_layout w ! i))) @ '' is done.'')]
              else [])
         \<and> list_ex audible (play (sound w) outcome)
         \<and> (\<exists>ov. overlay (timer_tick i now now2 outcome w) = Some ov \<and>
                ov_title ov = or_Timer (strip (title_edit (list_layout w ! i))) \<and>
                ov_visible ov \<and> ov_fullscreen ov \<and> ov_modal ov \<and>
                ov_buttons ov = [Snooze5, Snooze10, Dismiss])"
proof -
  let ?w1 = "w\<lparr> list_layout := (list_layout w)[i := fst (on_tick now (list_layout w ! i))] \<rparr>"
  have tt: "timer_tick i now now2 outcome w = on_timer_finished i outcome now2 ?w1"
    using assms by (rule timer_tick_expired)
  have title: "title_edit (list_layout ?w1 ! i) = title_edit (list_layout w ! i)"
    using assms(1) by (simp add: on_tick_frame)
  have "action_log (timer_tick i now now2 outcome w) =
           action_log w
           @ (if mute_chk w then [] else play (sound w) outcome)
           @ (if tray w
              then [TrayShowMessage ''SmartTimers''
                      (or_Timer (strip (title_edit (list_layout w ! i))) @ '' is done.'')]
              else [])"
    by (simp only: tt on_timer_finished_log notify_log title or_Timer_idem) simp
  moreover have "overlay (timer_tick i now now2 outcome w) =
     Some \<lparr> ov_title = or_Timer (strip (title_edit (list_layout w ! i))),
            ov_subtitle = or_Timer (strip (or_Timer (strip (title_edit (list_layout w ! i))))),
            ov_buttons = [Snooze5, Snooze10, Dismiss], ov_modal = True,
            ov_visible = True, ov_fullscreen = True \<rparr>"
    by (simp only: tt on_timer_finished_overlay notify_overlay title)
  ultimately show ?thesis
    using play_audible by simp
qed

theorem expiry_notification_witness:
  "0 < length (list_layout (running_window False False)) \<and>
   tick_active (list_layout (running_window False False) ! 0) \<and>
   snd (on_tick 12 (list_layout (running_window False False) ! 0)) \<and>
   action_log (timer_tick 0 12 12 Plays (running_window False False)) =
     [EffectStop, EffectPlay, TrayShowMessage ''SmartTimers'' ''Tea is done.'']"
proof -
  have h: "0 < length (list_layout (running_window False False))"
    "tick_active (list_layout (running_window False False) ! 0)"
    "snd (on_tick 12 (list_layout (running_window False False) ! 0))"
    using running_window_expires [of False False] by simp_all
  have t: "strip ''Tea'' = ''Tea''"
    by (simp add: strip_def py_isspace_def)
  show ?thesis
    using h expiry_notification [OF h, of 12 Plays]
    by (simp add: running_window_fields running_window_layout play_def start_def
          TimerWidget_init_def or_Timer_def t)
qed

text \<open>
  As first stated the claim promises an audible cue at every expiry; with the mute
  checkbox checked the expiring tick logs the tray message and nothing audible.
\<close>

theorem expiry_muted_counterexample:
  "snd (on_tick 12 (list_layout (running_window False True) ! 0)) \<and>
   \<not> list_ex audible (action_log (timer_tick 0 12 12 Plays (running_window False True)))"
proof -
  have h: "0 < length (list_layout (running_window False True))"
    "tick_active (list_layout (running_window False True) ! 0)"
    "snd (on_tick 12 (list_layout (running_window False True) ! 0))"
    using running_window_expires [of False True] by simp_all
  have "action_log (timer_tick 0 12 12 Plays (running_window False True)) =
      [TrayShowMessage ''SmartTimers''
         (or_Timer (strip (title_edit (list_layout (running_window False True) ! 0))) @ '' is done.'')]"
    by (simp only: timer_tick_expired [OF h] on_timer_finished_log notify_log)
       (simp add: running_window_fields running_window_layout on_tick_frame or_Timer_idem)
  then show ?thesis
    using h(3) by simp
qed

text \<open>
  Claim C2. For every timer whose repeat flag is checked at the moment of expiry, after
  the notification has fired the remaining time is back at the total duration and the
  timer is running again; a timer whose repeat flag is unchecked stays stopped at zero.
\<close>

theorem repeat_restart:
  assumes "i < length (list_layout w)" and "tick_active (list_layout w ! i)"
    and "snd (on_tick now (list_layout w ! i))"
    and "timer_reachable (list_layout w ! i)"
  shows "(repeat_chk (list_layout w ! i) \<longrightarrow>
            remaining (list_layout (timer_tick i now now2 outcome w) ! i)
              = of_int (total_t (list_layout w ! i)) \<and>
            total_t (list_layout (timer_tick i now now2 outcome w) ! i) = total_t (list_layout w ! i) \<and>
            running (list_layout (timer_tick i now now2 outcome w) ! i) \<and>
            tick_active (list_layout (timer_tick i now now2 outcome w) ! i) \<and>
            last_t (list_layout (timer_tick i now now2 outcome w) ! i) = Some now2)
       \<and> (\<not> repeat_chk (list_layout w ! i) \<longrightarrow>
            remaining (list_layout (timer_tick i now now2 outcome w) ! i) = 0 \<and>
            total_t (list_layout (timer_tick i now now2 outcome w) ! i) = total_t (list_layout w ! i) \<and>
            \<not> running (list_layout (timer_tick i now now2 outcome w) ! i) \<and>
            \<not> tick_active (list_layout (timer_tick i now now2 outcome w) ! i))
       \<and> (\<exists>ov. overlay (timer_tick i now now2 outcome w) = Some ov \<and> ov_visible ov)"
proof -
  let ?t = "list_layout w ! i"
  let ?t1 = "fst (on_tick now ?t)"
  let ?w1 = "w\<lparr> list_layout := (list_layout w)[i := ?t1] \<rparr>"
  have tt: "timer_tick i now now2 outcome w = on_timer_finished i outcome now2 ?w1"
    using assms(1-3) by (rule timer_tick_expired)
  have len: "i < length (list_layout ?w1)" and nth: "list_layout ?w1 ! i = ?t1"
    using assms(1) by simp_all
  have ge: "1 \<le> total_t ?t"
    using assms(4) by (rule reachable_total_ge1)
  have t': "list_layout (timer_tick i now now2 outcome w) ! i =
      (if repeat_chk ?t then start now2 (set_seconds (total_t ?t) ?t1) else ?t1)"
    by (simp only: tt on_timer_finished_timer [OF len] nth on_tick_frame)
  have st: "remaining ?t1 = 0 \<and> \<not> running ?t1 \<and> \<not> tick_active ?t1"
    using assms(3) by (rule on_tick_finished_state)
  have ov: "\<exists>ov. overlay (timer_tick i now now2 outcome w) = Some ov \<and> ov_visible ov"
    by (simp only: tt on_timer_finished_overlay notify_overlay) simp
  show ?thesis
    using ge st ov by (simp add: t' start_def set_seconds_def on_tick_frame)
qed

theorem repeat_restart_witness:
  "0 < length (list_layout (running_window True False)) \<and>
   tick_active (list_layout (running_window True False) ! 0) \<and>
   snd (on_tick 12 (list_layout (running_window True False) ! 0)) \<and>
   timer_reachable (list_layout (running_window True False) ! 0) \<and>
   repeat_chk (list_layout (running_window True False) ! 0) \<and>
   remaining (list_layout (timer_tick 0 12 13 Plays (running_window True False)) ! 0) = 10 \<and>
   running (list_layout (timer_tick 0 12 13 Plays (running_window True False)) ! 0) \<and>
   \<not> repeat_chk (list_layout (running_window False False) ! 0) \<and>
   remaining (list_layout (timer_tick 0 12 13 Plays (running_window False False)) ! 0) = 0 \<and>
   \<not> running (list_layout (timer_tick 0 12 13 Plays (running_window False False)) ! 0)"
proof -
  have h: "0 < length (list_layout (running_window True False))"
    "tick_active (list_layout (running_window True False) ! 0)"
    "snd (on_tick 12 (list_layout (running_window True False) ! 0))"
    "timer_reachable (list_layout (running_window True False) ! 0)"
    using running_window_expires [of True False] by simp_all
  have g: "0 < length (list_layout (running_window False False))"
    "tick_active (list_layout (running_window False False) ! 0)"
    "snd (on_tick 12 (list_layout (running_window False False) ! 0))"
    "timer_reachable (list_layout (running_window False False) ! 0)"
    using running_window_expires [of False False] by simp_all
  have v: "repeat_chk (list_layout (running_window True False) ! 0)"
    "\<not> repeat_chk (list_layout (running_window False False) ! 0)"
    "total_t (list_layout (running_window True False) ! 0) = 10"
    by (simp_all add: running_window_layout start_def TimerWidget_init_def)
  show ?thesis
    using h v repeat_restart [OF h, of 13 Plays] repeat_restart [OF g, of 13 Plays]
    by simp
qed

subsection \<open>Snooze and dismiss\<close>

lemma click_snooze:
  "overlay w = Some ov \<Longrightarrow> button_clicked b ov = overlay_on_snooze m ov \<Longrightarrow>
   click b w = add_timer (''Snooze ('' @ str_int m @ '' min)'') (m * 60) False
                 (w\<lparr> overlay := Some (ov\<lparr> ov_visible := False \<rparr>) \<rparr>)"
  by (simp add: click_def overlay_on_snooze_def on_snooze_def)

lemma click_dismiss:
  "overlay w = Some ov \<Longrightarrow> click Dismiss w = w\<lparr> overlay := Some (ov\<lparr> ov_visible := False \<rparr>) \<rparr>"
  by (simp add: click_def overlay_on_dismiss_def)

lemma add_timer_layout:
  "list_layout (add_timer title seconds repeat w) = list_layout w @ [TimerWidget_init title seconds repeat]"
  by (simp add: add_timer_def on_list_changed_def)

lemma add_timer_overlay: "overlay (add_timer title seconds repeat w) = overlay w"
  by (simp add: add_timer_def on_list_changed_def)

lemma str_int_5_10: "str_int 5 = ''5'' \<and> str_int 10 = ''10''"
proof -
  have "str_nat 5 = ''5''"
    by (simp add: str_nat.simps digit_char_def)
  moreover have "str_nat 10 = ''10''"
    by (subst str_nat.simps, subst str_nat.simps) (simp add: digit_char_def)
  ultimately show ?thesis
    by (simp add: str_int_def)
qed

text \<open>
  Claim C3. For every snooze request of \<open>m\<close> minutes issued from the alarm overlay
  (\<open>m\<close> is 5 or 10), the overlay is hidden and exactly one new non-repeating timer of
  \<open>m * 60\<close> seconds is added at the end of the window's timer list; dismiss hides the
  overlay and adds no timer.
\<close>

theorem snooze_adds_one_timer:
  assumes "overlay w = Some ov"
  shows "(b = Snooze5 \<and> m = 5 \<or> b = Snooze10 \<and> m = 10 \<longrightarrow>
            overlay (click b w) = Some (ov\<lparr> ov_visible := False \<rparr>) \<and>
            list_layout (click b w) =
              list_layout w @ [TimerWidget_init (''Snooze ('' @ str_int m @ '' min)'') (m * 60) False] \<and>
            length (list_layout (click b w)) = Suc (length (list_layout w)) \<and>
            total_t (last (list_layout (click b w))) = m * 60 \<and>
            remaining (last (list_layout (click b w))) = of_int (m * 60) \<and>
            \<not> repeat_chk (last (list_layout (click b w))) \<and>
            \<not> running (last (list_layout (click b w))))
       \<and> overlay (click Dismiss w) = Some (ov\<lparr> ov_visible := False \<rparr>)
       \<and> list_layout (click Dismiss w) = list_layout w"
proof (intro conjI impI)
  assume bm: "b = Snooze5 \<and> m = 5 \<or> b = Snooze10 \<and> m = 10"
  then have "button_clicked b ov = overlay_on_snooze m ov"
    by auto
  then have c: "click b w = add_timer (''Snooze ('' @ str_int m @ '' min)'') (m * 60) False
                 (w\<lparr> overlay := Some (ov\<lparr> ov_visible := False \<rparr>) \<rparr>)"
    using assms click_snooze by blast
  have pos: "1 \<le> m * 60"
    using bm by auto
  show "overlay (click b w) = Some (ov\<lparr> ov_visible := False \<rparr>)"
    by (simp add: c add_timer_overlay)
  show l: "list_layout (click b w) =
      list_layout w @ [TimerWidget_init (''Snooze ('' @ str_int m @ '' min)'') (m * 60) False]"
    by (simp add: c add_timer_layout)
  show "length (list_layout (click b w)) = Suc (length (list_layout w))"
    by (simp add: l)
  show "total_t (last (list_layout (click b w))) = m * 60"
    using pos by (simp add: l TimerWidget_init_def)
  show "remaining (last (list_layout (click b w))) = of_int (m * 60)"
    by (simp add: l TimerWidget_init_def)
  show "\<not> repeat_chk (last (list_layout (click b w)))"
    by (simp add: l TimerWidget_init_def)
  show "\<not> running (last (list_layout (click b w)))"
    by (simp add: l TimerWidget_init_def)
next
  show "overlay (click Dismiss w) = Some (ov\<lparr> ov_visible := False \<rparr>)"
    using assms by (simp add: click_dismiss)
  show "list_layout (click Dismiss w) = list_layout w"
    using assms by (simp add: click_dismiss)
qed

theorem snooze_adds_one_timer_witness:
  "overlay (notify ''Tea'' Plays window0) = Some (show_full (AlarmOverlay_init ''Tea'')) \<and>
   list_layout (click Snooze5 (notify ''Tea'' Plays window0))
     = [TimerWidget_init ''Snooze (5 min)'' 300 False] \<and>
   list_layout (click Snooze10 (notify ''Tea'' Plays window0))
     = [TimerWidget_init ''Snooze (10 min)'' 600 False] \<and>
   overlay (click Snooze5 (notify ''Tea'' Plays window0))
     = Some ((show_full (AlarmOverlay_init ''Tea''))\<lparr> ov_visible := False \<rparr>) \<and>
   list_layout (click Dismiss (notify ''Tea'' Plays window0)) = []"
proof -
  have o: "overlay (notify ''Tea'' Plays window0) = Some (show_full (AlarmOverlay_init ''Tea''))"
    by (simp add: notify_def)
  have l: "list_layout (notify ''Tea'' Plays window0) = []"
    by (simp add: notify_def MainWindow_init_def on_list_changed_def)
  show ?thesis
    using o l snooze_adds_one_timer [OF o, of Snooze5 5] snooze_adds_one_timer [OF o, of Snooze10 10]
    by (simp add: str_int_5_10)
qed

subsection \<open>The add-timer form\<close>

lemma add_timer_from_inputs_rejected:
  "h_spin w * 3600 + m_spin w * 60 + s_spin w \<le> 0 \<Longrightarrow>
   add_timer_from_inputs w = w\<lparr> status_message := Some ''Please set a duration greater than 0.'' \<rparr>"
  by (simp add: add_timer_from_inputs_def)

lemma add_timer_from_inputs_accepted:
  "0 < h_spin w * 3600 + m_spin w * 60 + s_spin w \<Longrightarrow>
   add_timer_from_inputs w =
     (add_timer (or_Timer (strip (name_edit w))) (h_spin w * 3600 + m_spin w * 60 + s_spin w)
        (repeat_new w) w)
       \<lparr> name_edit := [], h_spin := 0, m_spin := 0, s_spin := 0, repeat_new := False \<rparr>"
  by (simp add: add_timer_from_inputs_def Let_def)

lemma strip_Tea: "strip '' Tea'' = ''Tea''"
  by (simp add: strip_def py_isspace_def)

text \<open>
  Claim C8, amended. When the add-timer form is submitted with hours, minutes and seconds
  summing to zero, no timer is created and the form inputs are left unchanged; when the
  sum is positive, exactly one timer with that duration is added, titled with the entered
  name stripped of leading and trailing whitespace (or ``Timer'' when nothing is left),
  and the name, the spin boxes and the repeat checkbox are reset to their defaults.
\<close>

theorem add_timer_from_inputs_atomic:
  assumes "spin_ranges w"
  shows "(h_spin w + m_spin w + s_spin w = 0 \<longrightarrow>
            list_layout (add_timer_from_inputs w) = list_layout w \<and>
            name_edit (add_timer_from_inputs w) = name_edit w \<and>
            h_spin (add_timer_from_inputs w) = h_spin w \<and>
            m_spin (add_timer_from_inputs w) = m_spin w \<and>
            s_spin (add_timer_from_inputs w) = s_spin w \<and>
            repeat_new (add_timer_from_inputs w) = repeat_new w)
       \<and> (0 < h_spin w + m_spin w + s_spin w \<longrightarrow>
            list_layout (add_timer_from_inputs w) =
              list_layout w @
                [TimerWidget_init (if strip (name_edit w) = [] then ''Timer'' else strip (name_edit w))
                   (h_spin w * 3600 + m_spin w * 60 + s_spin w) (repeat_new w)] \<and>
            title_edit (last (list_layout (add_timer_from_inputs w))) =
              (if strip (name_edit w) = [] then ''Timer'' else strip (name_edit w)) \<and>
            total_t (last (list_layout (add_timer_from_inputs w))) =
              h_spin w * 3600 + m_spin w * 60 + s_spin w \<and>
            remaining (last (list_layout (add_timer_from_inputs w))) =
              of_int (h_spin w * 3600 + m_spin w * 60 + s_spin w) \<and>
            repeat_chk (last (list_layout (add_timer_from_inputs w))) = repeat_new w \<and>
            name_edit (add_timer_from_inputs w) = [] \<and>
            h_spin (add_timer_from_inputs w) = 0 \<and>
            m_spin (add_timer_from_inputs w) = 0 \<and>
            s_spin (add_timer_from_inputs w) = 0 \<and>
            \<not> repeat_new (add_timer_from_inputs w))"
proof (intro conjI impI)
  assume z: "h_spin w + m_spin w + s_spin w = 0"
  then have "h_spin w * 3600 + m_spin w * 60 + s_spin w \<le> 0"
    using assms by (simp add: spin_ranges_def)
  then have r: "add_timer_from_inputs w = w\<lparr> status_message := Some ''Please set a duration greater than 0.'' \<rparr>"
    by (rule add_timer_from_inputs_rejected)
  show "list_layout (add_timer_from_inputs w) = list_layout w"
    "name_edit (add_timer_from_inputs w) = name_edit w"
    "h_spin (add_timer_from_inputs w) = h_spin w"
    "m_spin (add_timer_from_inputs w) = m_spin w"
    "s_spin (add_timer_from_inputs w) = s_spin w"
    "repeat_new (add_timer_from_inputs w) = repeat_new w"
    by (simp_all add: r)
next
  assume p: "0 < h_spin w + m_spin w + s_spin w"
  then have pos: "0 < h_spin w * 3600 + m_spin w * 60 + s_spin w"
    using assms by (simp add: spin_ranges_def)
  note a = add_timer_from_inputs_accepted [OF pos]
  show l: "list_layout (add_timer_from_inputs w) =
              list_layout w @
                [TimerWidget_init (if strip (name_edit w) = [] then ''Timer'' else strip (name_edit w))
                   (h_spin w * 3600 + m_spin w * 60 + s_spin w) (repeat_new w)]"
    by (simp add: a add_timer_layout or_Timer_def)
  show "title_edit (last (list_layout (add_timer_from_inputs w))) =
              (if strip (name_edit w) = [] then ''Timer'' else strip (name_edit w))"
    by (simp add: l TimerWidget_init_def or_Timer_def)
  show "total_t (last (list_layout (add_timer_from_inputs w))) =
              h_spin w * 3600 + m_spin w * 60 + s_spin w"
    using pos by (simp add: l TimerWidget_init_def)
  show "remaining (last (list_layout (add_timer_from_inputs w))) =
              of_int (h_spin w * 3600 + m_spin w * 60 + s_spin w)"
    by (simp add: l TimerWidget_init_def)
  show "repeat_chk (last (list_layout (add_timer_from_inputs w))) = repeat_new w"
    by (simp add: l TimerWidget_init_def)
  show "name_edit (add_timer_from_inputs w) = []"
    "h_spin (add_timer_from_inputs w) = 0"
    "m_spin (add_timer_from_inputs w) = 0"
    "s_spin (add_timer_from_inputs w) = 0"
    "\<not> repeat_new (add_timer_from_inputs w)"
    by (simp_all add: a)
qed

theorem add_timer_from_inputs_atomic_witness:
  "spin_ranges (window0\<lparr> name_edit := '' Tea'', m_spin := 5, repeat_new := True \<rparr>) \<and>
   list_layout (add_timer_from_inputs (window0\<lparr> name_edit := '' Tea'', m_spin := 5, repeat_new := True \<rparr>))
     = [TimerWidget_init ''Tea'' 300 True] \<and>
   name_edit (add_timer_from_inputs (window0\<lparr> name_edit := '' Tea'', m_spin := 5, repeat_new := True \<rparr>)) = [] \<and>
   spin_ranges (window0\<lparr> name_edit := ''Tea'' \<rparr>) \<and>
   list_layout (add_timer_from_inputs (window0\<lparr> name_edit := ''Tea'' \<rparr>)) = [] \<and>
   name_edit (add_timer_from_inputs (window0\<lparr> name_edit := ''Tea'' \<rparr>)) = ''Tea''"
proof -
  have r: "spin_ranges (window0\<lparr> name_edit := '' Tea'', m_spin := 5, repeat_new := True \<rparr>)"
    "spin_ranges (window0\<lparr> name_edit := ''Tea'' \<rparr>)"
    by (simp_all add: spin_ranges_def MainWindow_init_def on_list_changed_def)
  show ?thesis
    using r add_timer_from_inputs_atomic [OF r(1)] add_timer_from_inputs_atomic [OF r(2)]
    by (simp add: MainWindow_init_def on_list_changed_def strip_Tea)
qed

text \<open>
  As first stated the claim gives the timer the entered name; a name entered with a
  leading space loses it.
\<close>

theorem entered_name_stripped_counterexample:
  "title_edit (last (list_layout (add_timer_from_inputs (window0\<lparr> name_edit := '' Tea'', m_spin := 5 \<rparr>))))
     \<noteq> name_edit (window0\<lparr> name_edit := '' Tea'', m_spin := 5 \<rparr>)"
  by (simp add: add_timer_from_inputs_def add_timer_def on_list_changed_def MainWindow_init_def
        TimerWidget_init_def or_Timer_def strip_Tea)

end
